theory Spec2Isabelle
  imports Main
begin

section \<open>Python values and exceptions\<close>

text \<open>
  The SDK stores and forwards values of type \<open>Any\<close>. The model covers the values that
  JSON decoding produces and that option dictionaries hold: \<open>None\<close>, booleans, unbounded
  integers, strings, lists and dictionaries with string keys (kept as association lists
  whose keys are distinct). Floating-point numbers are outside the model; no function
  below inspects a number's value except through truthiness.
\<close>

datatype pyval =
    PNone
  | PBool bool
  | PInt int
  | PStr string
  | PList "pyval list"
  | PDict "(string \<times> pyval) list"

text \<open>
  A string is the list of its code points, each below 256. Among these \<open>str.isspace\<close>
  holds for the controls 9 to 13 and 28 to 31, the space, and the code points 133 and 160;
  \<open>rstrip()\<close> removes such characters from the right end and \<open>strip()\<close> from both
  ends.
\<close>

definition isspace :: "char \<Rightarrow> bool" where
  "isspace c = (of_char c \<in> {9, 10, 11, 12, 13, 28, 29, 30, 31, 32, 133, 160 :: nat})"

definition rstrip :: "string \<Rightarrow> string" where
  "rstrip s = rev (dropWhile isspace (rev s))"

definition strip :: "string \<Rightarrow> string" where
  "strip s = dropWhile isspace (rstrip s)"

text \<open>Truth value testing, as \<open>if x:\<close> and \<open>x or y\<close> apply it.\<close>

fun truthy :: "pyval \<Rightarrow> bool" where
  "truthy PNone = False"
| "truthy (PBool b) = b"
| "truthy (PInt i) = (i \<noteq> 0)"
| "truthy (PStr s) = (s \<noteq> [])"
| "truthy (PList xs) = (xs \<noteq> [])"
| "truthy (PDict kvs) = (kvs \<noteq> [])"

text \<open>\<open>type(x).__name__\<close>, which the interpreter's error messages quote.\<close>

fun type_name :: "pyval \<Rightarrow> string" where
  "type_name PNone = ''NoneType''"
| "type_name (PBool b) = ''bool''"
| "type_name (PInt i) = ''int''"
| "type_name (PStr s) = ''str''"
| "type_name (PList xs) = ''list''"
| "type_name (PDict kvs) = ''dict''"

text \<open>\<open>d.get(key, default)\<close> on a dictionary.\<close>

definition dict_get :: "(string \<times> pyval) list \<Rightarrow> string \<Rightarrow> pyval \<Rightarrow> pyval" where
  "dict_get d k dflt = (case map_of d k of None \<Rightarrow> dflt | Some v \<Rightarrow> v)"

text \<open>
  Exceptions are values: a class and the text that \<open>str(e)\<close> gives. Every class listed
  derives from \<open>Exception\<close>, so \<open>except Exception\<close> catches all of them;
  \<open>JSONDecodeError\<close> is the only class a handler of the SDK singles out.
\<close>

datatype exc_class =
    ValueError
  | TypeError
  | OverflowError
  | AttributeError
  | JSONDecodeError
  | UnicodeDecodeError
  | FileNotFoundError
  | PatternError
  | URLError
  | OtherException

datatype exc = Exc (exc_class: exc_class) (exc_str: string)

text \<open>
  \<open>try: body except <classes>: handler\<close>: the handler runs for a raised exception that
  the clause catches, any other exception propagates.
\<close>

definition try_except :: "(exc + 'a) \<Rightarrow> (exc \<Rightarrow> bool) \<Rightarrow> (exc \<Rightarrow> exc + 'a) \<Rightarrow> exc + 'a" where
  "try_except body catches handler =
     (case body of
        Inl e \<Rightarrow> if catches e then handler e else Inl e
      | Inr v \<Rightarrow> Inr v)"

definition except_Exception :: "exc \<Rightarrow> bool" where
  "except_Exception e = True"

definition except_JSONDecodeError :: "exc \<Rightarrow> bool" where
  "except_JSONDecodeError e = (exc_class e = JSONDecodeError)"

definition quoted :: "string \<Rightarrow> string" where
  "quoted s = CHR 0x27 # s @ [CHR 0x27]"

section \<open>app\_state.py: the log buffer and the state dictionary\<close>

record LogEntry =
  log_type :: string
  message :: string
  timestamp :: string
  meta :: "(string \<times> pyval) list option"

text \<open>
  \<open>AppState\<close> holds \<open>_logs\<close>, a \<open>deque(maxlen=max_logs)\<close>, and \<open>_custom_state\<close>, a
  dictionary. The deque is a list (oldest entry first) with its \<open>maxlen\<close>; \<open>None\<close> is
  the unbounded deque. The fields \<open>_start_time\<close> and \<open>_pid\<close> are read by
  \<open>get_status\<close> only and are left out.
\<close>

record AppState =
  logs :: "LogEntry list"
  maxlen :: "nat option"
  custom_state :: "string \<rightharpoonup> pyval"

text \<open>
  The \<open>maxlen\<close> argument of \<open>deque\<close>: \<open>None\<close> or an integer that fits the index type
  (63 bits on a 64-bit build) and is not negative.
\<close>

fun deque_maxlen :: "pyval \<Rightarrow> exc + nat option" where
  "deque_maxlen PNone = Inr None"
| "deque_maxlen (PInt n) =
     (if n > 2 ^ 63 - 1 \<or> n < - (2 ^ 63)
        then Inl (Exc OverflowError ''Python int too large to convert to C ssize_t'')
      else if n < 0 then Inl (Exc ValueError ''maxlen must be non-negative'')
      else Inr (Some (nat n)))"
| "deque_maxlen (PBool b) = Inr (Some (if b then 1 else 0))"
| "deque_maxlen v = Inl (Exc TypeError ''an integer is required'')"

definition AppState_init :: "pyval \<Rightarrow> exc + AppState" where
  "AppState_init max_logs =
     (case deque_maxlen max_logs of
        Inl e \<Rightarrow> Inl e
      | Inr m \<Rightarrow> Inr \<lparr>logs = [], maxlen = m, custom_state = Map.empty\<rparr>)"

text \<open>
  \<open>deque.append\<close>: the item goes to the right end, and a deque that then exceeds its
  \<open>maxlen\<close> drops its leftmost item.
\<close>

definition deque_append :: "nat option \<Rightarrow> 'a list \<Rightarrow> 'a \<Rightarrow> 'a list" where
  "deque_append m xs x =
     (let ys = xs @ [x]
      in case m of
           None \<Rightarrow> ys
         | Some n \<Rightarrow> if n < length ys then tl ys else ys)"

text \<open>
  \<open>AppState.log\<close>. The clock reading \<open>datetime.now().isoformat()\<close> is the argument
  \<open>now\<close>.
\<close>

definition AppState_log ::
  "AppState \<Rightarrow> string \<Rightarrow> string \<Rightarrow> string \<Rightarrow> (string \<times> pyval) list option \<Rightarrow> AppState" where
  "AppState_log st now ty msg mt =
     (let entry = \<lparr>log_type = ty, message = msg, timestamp = now, meta = mt\<rparr>
      in st\<lparr>logs := deque_append (maxlen st) (logs st) entry\<rparr>)"

text \<open>The slice \<open>xs[start:]\<close>: a negative start counts from the end, and both ends clamp.\<close>

definition slice_from :: "int \<Rightarrow> 'a list \<Rightarrow> 'a list" where
  "slice_from start xs =
     (let n = int (length xs);
          s = (if start < 0 then max (start + n) 0 else min start n)
      in drop (nat s) xs)"

text \<open>
  \<open>AppState.get\_logs\<close>. \<open>if log_type:\<close> skips the filter for \<open>None\<close> and for the empty
  string; \<open>if count is not None:\<close> takes the slice \<open>logs[-count:]\<close> for every integer.
\<close>

definition AppState_get_logs :: "AppState \<Rightarrow> int option \<Rightarrow> string option \<Rightarrow> LogEntry list" where
  "AppState_get_logs st count ty =
     (let all_logs = logs st;
          kept = (case ty of
                    None \<Rightarrow> all_logs
                  | Some t \<Rightarrow> if t \<noteq> [] then filter (\<lambda>l. log_type l = t) all_logs else all_logs)
      in case count of
           None \<Rightarrow> kept
         | Some c \<Rightarrow> slice_from (- c) kept)"

text \<open>
  \<open>AppState.search\_logs\<close>. The regular-expression engine is the argument \<open>re_compile\<close>:
  \<open>re.compile\<close> raises for a pattern it rejects and otherwise gives the compiled
  pattern, of which only \<open>pattern.search(message)\<close> as a truth value is used.
\<close>

definition AppState_search_logs ::
  "(string \<Rightarrow> exc + (string \<Rightarrow> bool)) \<Rightarrow> AppState \<Rightarrow> string \<Rightarrow> exc + LogEntry list" where
  "AppState_search_logs re_compile st query =
     (case re_compile query of
        Inl e \<Rightarrow> Inl e
      | Inr pattern_search \<Rightarrow> Inr (filter (\<lambda>l. pattern_search (message l)) (logs st)))"

definition AppState_set_state :: "AppState \<Rightarrow> string \<Rightarrow> pyval \<Rightarrow> AppState" where
  "AppState_set_state st key val = st\<lparr>custom_state := (custom_state st)(key \<mapsto> val)\<rparr>"

text \<open>
  \<open>AppState.get\_state\<close> returns the dictionary itself when the key is \<open>None\<close>, and
  \<open>dict.get(key)\<close> otherwise, which is \<open>None\<close> for a key that is absent.
\<close>

datatype state_view = WholeState "string \<rightharpoonup> pyval" | StateValue pyval

definition AppState_get_state :: "AppState \<Rightarrow> string option \<Rightarrow> state_view" where
  "AppState_get_state st key =
     (case key of
        None \<Rightarrow> WholeState (custom_state st)
      | Some k \<Rightarrow> StateValue (case custom_state st k of None \<Rightarrow> PNone | Some v \<Rightarrow> v))"

section \<open>core.py: the instance, the HTTP bridge and mode resolution\<close>

subsection \<open>What the process sees of its surroundings\<close>

text \<open>
  A spawned monitor process, as far as the SDK looks at it: its command line, its pid and
  what \<open>poll()\<close> returns once the two seconds of start-up time have passed (\<open>None\<close> while
  it is still running).
\<close>

record Popen =
  args :: "pyval list"
  pid :: int
  poll_after_start :: "int option"

text \<open>
  The process environment read by \<open>make_reflexive\<close>: \<open>os.environ\<close>, \<open>sys.argv[0]\<close>,
  the built-in \<open>int\<close> applied to a string, \<open>subprocess.Popen\<close> applied to a command
  line (it raises when the executable is missing), the built-in \<open>str\<close> as an f-string
  applies it to a value, and the clock: \<open>clock k\<close> is \<open>datetime.now().isoformat()\<close> at
  the time of the \<open>k\<close>-th line that the call prints, counted from 0.
\<close>

record Sys =
  environ :: "string \<rightharpoonup> string"
  argv0 :: string
  int_of_str :: "string \<Rightarrow> exc + int"
  popen :: "pyval list \<Rightarrow> exc + Popen"
  str_of :: "pyval \<Rightarrow> string"
  clock :: "nat \<Rightarrow> string"

text \<open>
  A request to the monitor at \<open>http://localhost:<port>/<path>\<close>: the port as the instance
  holds it, the path, the dictionary sent as JSON body and the timeout in seconds.
\<close>

record Request =
  req_port :: pyval
  req_path :: string
  req_payload :: "(string \<times> pyval) list"
  req_timeout :: nat

text \<open>
  A line of the response body either decodes as UTF-8 to a string or makes
  \<open>line.decode("utf-8")\<close> raise with the given message. Iterating a response yields its
  lines and then ends, or raises in the middle of the body (a timeout, a broken
  connection) after the lines read so far.
\<close>

datatype raw_line = Utf8 string | NotUtf8 string

record Response =
  lines :: "raw_line list"
  read_error :: "exc option"

text \<open>
  The network and the JSON decoder: \<open>urlopen\<close> stands for encoding the body, sending the
  request and opening the response, raising when any of that fails; \<open>json_loads\<close> is
  \<open>json.loads\<close>, raising \<open>JSONDecodeError\<close> for text that is not JSON.
\<close>

record Net =
  urlopen :: "Request \<Rightarrow> exc + Response"
  json_loads :: "string \<Rightarrow> exc + pyval"

subsection \<open>ReflexiveInstance\<close>

record ReflexiveInstance =
  app_state :: AppState
  cli_process :: "Popen option"
  cli_port :: pyval
  options :: "(string \<times> pyval) list"

text \<open>
  The constructor: \<open>options or {}\<close>. Registering the exit hook for a spawned process
  changes nothing that the functions below read.
\<close>

definition ReflexiveInstance_init ::
  "AppState \<Rightarrow> Popen option \<Rightarrow> pyval \<Rightarrow> (string \<times> pyval) list option \<Rightarrow> ReflexiveInstance" where
  "ReflexiveInstance_init st process port opts =
     \<lparr>app_state = st, cli_process = process, cli_port = port,
      options = (case opts of None \<Rightarrow> [] | Some d \<Rightarrow> if d \<noteq> [] then d else [])\<rparr>"

definition ReflexiveInstance_log ::
  "ReflexiveInstance \<Rightarrow> string \<Rightarrow> string \<Rightarrow> string \<Rightarrow> ReflexiveInstance" where
  "ReflexiveInstance_log inst now ty msg =
     inst\<lparr>app_state := AppState_log (app_state inst) now ty msg None\<rparr>"

definition ReflexiveInstance_get_state :: "ReflexiveInstance \<Rightarrow> string option \<Rightarrow> state_view" where
  "ReflexiveInstance_get_state inst key = AppState_get_state (app_state inst) key"

definition ReflexiveInstance_get_logs ::
  "ReflexiveInstance \<Rightarrow> int option \<Rightarrow> string option \<Rightarrow> LogEntry list" where
  "ReflexiveInstance_get_logs inst count ty = AppState_get_logs (app_state inst) count ty"

subsection \<open>State sync\<close>

text \<open>The body of the \<open>try\<close> in \<open>_sync_state_to_cli\<close>; the response is not read.\<close>

definition sync_request :: "Net \<Rightarrow> ReflexiveInstance \<Rightarrow> string \<Rightarrow> pyval \<Rightarrow> exc + unit" where
  "sync_request net inst key val =
     (case urlopen net \<lparr>req_port = cli_port inst, req_path = ''/client-state'',
                        req_payload = [(''key'', PStr key), (''value'', val)],
                        req_timeout = 1\<rparr> of
        Inl e \<Rightarrow> Inl e
      | Inr response \<Rightarrow> Inr ())"

definition sync_state_to_cli :: "Net \<Rightarrow> ReflexiveInstance \<Rightarrow> string \<Rightarrow> pyval \<Rightarrow> exc + unit" where
  "sync_state_to_cli net inst key val =
     try_except (sync_request net inst key val) except_Exception (\<lambda>e. Inr ())"

definition ReflexiveInstance_set_state ::
  "Net \<Rightarrow> ReflexiveInstance \<Rightarrow> string \<Rightarrow> pyval \<Rightarrow> exc + ReflexiveInstance" where
  "ReflexiveInstance_set_state net inst key val =
     (let inst' = inst\<lparr>app_state := AppState_set_state (app_state inst) key val\<rparr>
      in if truthy (cli_port inst')
         then (case sync_state_to_cli net inst' key val of
                 Inl e \<Rightarrow> Inl e
               | Inr u \<Rightarrow> Inr inst')
         else Inr inst')"

subsection \<open>Chat\<close>

text \<open>\<open>full_response += v\<close>: only a string can be appended to a string.\<close>

definition str_iadd :: "string \<Rightarrow> pyval \<Rightarrow> exc + string" where
  "str_iadd s v =
     (case v of
        PStr c \<Rightarrow> Inr (s @ c)
      | _ \<Rightarrow> Inl (Exc TypeError
                (''can only concatenate str (not '' @ [CHR 0x22] @ type_name v @ [CHR 0x22]
                 @ '') to str'')))"

text \<open>\<open>chunk.get\<close>: only a dictionary has the method.\<close>

definition chunk_get :: "pyval \<Rightarrow> string \<Rightarrow> pyval \<Rightarrow> exc + pyval" where
  "chunk_get chunk k dflt =
     (case chunk of
        PDict d \<Rightarrow> Inr (dict_get d k dflt)
      | _ \<Rightarrow> Inl (Exc AttributeError
                (quoted (type_name chunk) @ '' object has no attribute '' @ quoted ''get'')))"

text \<open>
  One pass through the body of \<open>for line in response\<close>, from the text collected so far
  to the text collected after the line. The inner \<open>try\<close> covers decoding the frame,
  reading its type and appending its content, and catches \<open>JSONDecodeError\<close> only.
\<close>

definition sse_line :: "(string \<Rightarrow> exc + pyval) \<Rightarrow> string \<Rightarrow> raw_line \<Rightarrow> exc + string" where
  "sse_line loads full_response line =
     (case line of
        NotUtf8 msg \<Rightarrow> Inl (Exc UnicodeDecodeError msg)
      | Utf8 line_str \<Rightarrow>
          if take 6 line_str = ''data: ''
          then try_except
                 (case loads (drop 6 line_str) of
                    Inl e \<Rightarrow> Inl e
                  | Inr chunk \<Rightarrow>
                      (case chunk_get chunk ''type'' PNone of
                         Inl e \<Rightarrow> Inl e
                       | Inr ty \<Rightarrow>
                           if ty = PStr ''text''
                           then (case chunk_get chunk ''content'' (PStr '''') of
                                   Inl e \<Rightarrow> Inl e
                                 | Inr content \<Rightarrow> str_iadd full_response content)
                           else Inr full_response))
                 except_JSONDecodeError (\<lambda>e. Inr full_response)
          else Inr full_response)"

fun sse_lines :: "(string \<Rightarrow> exc + pyval) \<Rightarrow> string \<Rightarrow> raw_line list \<Rightarrow> exc + string" where
  "sse_lines loads full_response [] = Inr full_response"
| "sse_lines loads full_response (line # rest) =
     (case sse_line loads full_response line of
        Inl e \<Rightarrow> Inl e
      | Inr full_response' \<Rightarrow> sse_lines loads full_response' rest)"

text \<open>The \<open>with\<close> block: read every line, then \<open>return full_response or "No response"\<close>.\<close>

definition read_sse :: "(string \<Rightarrow> exc + pyval) \<Rightarrow> Response \<Rightarrow> exc + string" where
  "read_sse loads response =
     (case sse_lines loads [] (lines response) of
        Inl e \<Rightarrow> Inl e
      | Inr full_response \<Rightarrow>
          (case read_error response of
             Some e \<Rightarrow> Inl e
           | None \<Rightarrow> Inr (if full_response \<noteq> [] then full_response else ''No response'')))"

definition chat_request :: "ReflexiveInstance \<Rightarrow> string \<Rightarrow> Request" where
  "chat_request inst msg =
     \<lparr>req_port = cli_port inst, req_path = ''/chat'',
      req_payload = [(''message'', PStr msg)], req_timeout = 60\<rparr>"

text \<open>The body of the outer \<open>try\<close> in \<open>_chat_via_http\<close>.\<close>

definition chat_attempt :: "Net \<Rightarrow> ReflexiveInstance \<Rightarrow> string \<Rightarrow> exc + string" where
  "chat_attempt net inst msg =
     (case urlopen net (chat_request inst msg) of
        Inl e \<Rightarrow> Inl e
      | Inr response \<Rightarrow> read_sse (json_loads net) response)"

definition chat_via_http :: "Net \<Rightarrow> ReflexiveInstance \<Rightarrow> string \<Rightarrow> exc + string" where
  "chat_via_http net inst msg =
     try_except (chat_attempt net inst msg) except_Exception
       (\<lambda>e. Inr (''Error: '' @ exc_str e))"

definition chat :: "Net \<Rightarrow> ReflexiveInstance \<Rightarrow> string \<Rightarrow> exc + string" where
  "chat net inst msg =
     (if truthy (cli_port inst)
      then chat_via_http net inst msg
      else Inr ''Error: Chat requires running under Reflexive CLI (run: reflexive app.py)'')"

subsection \<open>Spawning the monitor and resolving the mode\<close>

definition create_client_reflexive :: "int \<Rightarrow> exc + ReflexiveInstance" where
  "create_client_reflexive port =
     (case AppState_init (PInt 500) of
        Inl e \<Rightarrow> Inl e
      | Inr st \<Rightarrow> Inr (ReflexiveInstance_init st None (PInt port) None))"

text \<open>The command line that \<open>_spawn_cli_process\<close> builds in \<open>cli_cmd\<close>.\<close>

definition cli_cmd :: "pyval \<Rightarrow> (string \<times> pyval) list \<Rightarrow> pyval list" where
  "cli_cmd entry_file opts =
     [PStr ''npx'', PStr ''reflexive'']
     @ (if truthy (dict_get opts ''write'' (PBool True)) then [PStr ''--write''] else [])
     @ (if truthy (dict_get opts ''debug'' (PBool False)) then [PStr ''--debug''] else [])
     @ (if truthy (dict_get opts ''shell'' (PBool False)) then [PStr ''--shell''] else [])
     @ [entry_file]"

text \<open>
  \<open>_spawn_cli_process\<close>: both handlers return \<open>None\<close>, as does a process that has exited
  when it is polled.
\<close>

definition spawn_cli_process :: "Sys \<Rightarrow> pyval \<Rightarrow> (string \<times> pyval) list \<Rightarrow> exc + Popen option" where
  "spawn_cli_process sys entry_file opts =
     try_except
       (case popen sys (cli_cmd entry_file opts) of
          Inl e \<Rightarrow> Inl e
        | Inr process \<Rightarrow>
            if poll_after_start process \<noteq> None then Inr None else Inr (Some process))
       except_Exception (\<lambda>e. Inr None)"

text \<open>
  What \<open>_spawn_cli_process\<close> prints: a line in each of the three cases in which it
  returns \<open>None\<close>, and nothing when it returns the process.
\<close>

definition spawn_cli_printed :: "Sys \<Rightarrow> pyval \<Rightarrow> (string \<times> pyval) list \<Rightarrow> string list" where
  "spawn_cli_printed sys entry_file opts =
     (case popen sys (cli_cmd entry_file opts) of
        Inl e \<Rightarrow>
          if exc_class e = FileNotFoundError
          then [''[reflexive] Error: Reflexive CLI not found. Install with: npm install -g reflexive'']
          else [''[reflexive] Error starting CLI: '' @ exc_str e]
      | Inr process \<Rightarrow>
          if poll_after_start process \<noteq> None
          then [''[reflexive] CLI process exited early'']
          else [])"

text \<open>
  \<open>_intercept_logging\<close> replaces \<open>sys.stdout.write\<close> by \<open>stdout_interceptor\<close>, which
  logs text that is not blank into the buffer of the instance, stripped on the right, and
  passes the text on. The handler it adds to the \<open>logging\<close> module and the interceptor
  of \<open>sys.stderr\<close> are not used by \<open>make_reflexive\<close> itself and are left out.
\<close>

definition stdout_interceptor :: "AppState \<Rightarrow> string \<Rightarrow> string \<Rightarrow> AppState" where
  "stdout_interceptor st now text =
     (if text \<noteq> [] \<and> strip text \<noteq> []
      then AppState_log st now ''stdout'' (rstrip text) None
      else st)"

text \<open>
  \<open>print(text)\<close> once the interceptor is installed: \<open>print\<close> writes the text and then
  the line end, each with a call of \<open>sys.stdout.write\<close>. \<open>prints_captured\<close> is a run
  of such calls, the \<open>k\<close>-th line and those after it.
\<close>

definition print_captured :: "AppState \<Rightarrow> string \<Rightarrow> string \<Rightarrow> AppState" where
  "print_captured st now text =
     stdout_interceptor (stdout_interceptor st now text) now [CHR 0x0A]"

fun prints_captured :: "(nat \<Rightarrow> string) \<Rightarrow> nat \<Rightarrow> AppState \<Rightarrow> string list \<Rightarrow> AppState" where
  "prints_captured clk k st [] = st"
| "prints_captured clk k st (text # rest) =
     prints_captured clk (Suc k) (print_captured st (clk k) text) rest"

text \<open>
  \<open>make_reflexive\<close>. In child mode the line it prints is written before any interceptor
  of this call exists. In the other branch the interceptor is installed right after the
  buffer is created, so every line printed from then on, by \<open>make_reflexive\<close> and by
  \<open>_spawn_cli_process\<close>, is also an entry of the buffer of the instance returned.
\<close>

definition make_reflexive :: "Sys \<Rightarrow> (string \<times> pyval) list option \<Rightarrow> exc + ReflexiveInstance" where
  "make_reflexive sys options_arg =
     (let opts = (case options_arg of None \<Rightarrow> [] | Some d \<Rightarrow> if d \<noteq> [] then d else []);
          cli_mode = (environ sys ''REFLEXIVE_CLI_MODE'' = Some ''true'');
          cli_port_str = environ sys ''REFLEXIVE_CLI_PORT''
      in if cli_mode \<and> cli_port_str \<noteq> None \<and> cli_port_str \<noteq> Some []
         then (case int_of_str sys (the cli_port_str) of
                 Inl e \<Rightarrow> Inl e
               | Inr port \<Rightarrow> create_client_reflexive port)
         else (case AppState_init (dict_get opts ''max_logs'' (PInt 500)) of
                 Inl e \<Rightarrow> Inl e
               | Inr st \<Rightarrow>
                   if truthy (dict_get opts ''spawn_cli'' (PBool False))
                   then (let entry_file = dict_get opts ''entry'' (PStr (argv0 sys));
                             port = dict_get opts ''port'' (PInt 3099);
                             printed =
                               [''[reflexive] Spawning Reflexive CLI for '' @ str_of sys entry_file
                                @ ''...'']
                               @ spawn_cli_printed sys entry_file opts
                         in case spawn_cli_process sys entry_file opts of
                              Inl e \<Rightarrow> Inl e
                            | Inr None \<Rightarrow>
                                Inr (ReflexiveInstance_init
                                       (prints_captured (clock sys) 0 st
                                          (printed
                                           @ [''[reflexive] Falling back to standalone mode (chat disabled)'']))
                                       None PNone (Some opts))
                            | Inr (Some process) \<Rightarrow>
                                Inr (ReflexiveInstance_init
                                       (prints_captured (clock sys) 0 st
                                          (printed
                                           @ [''[reflexive] CLI started (PID: ''
                                                @ str_of sys (PInt (pid process)) @ '')'',
                                              ''[reflexive] Dashboard: http://localhost:''
                                                @ str_of sys port @ ''/reflexive'']))
                                       (Some process) port (Some opts)))
                   else Inr (ReflexiveInstance_init st None PNone (Some opts))))"

section \<open>Callers\<close>

text \<open>
  A caller that logs one entry after the other: each call is the clock reading at the
  call and the arguments of \<open>AppState.log\<close>. \<open>entry_of_call\<close> is the entry that a
  call appends.
\<close>

definition entry_of_call :: "string \<times> string \<times> string \<times> (string \<times> pyval) list option \<Rightarrow> LogEntry" where
  "entry_of_call c = (case c of (now, ty, msg, mt) \<Rightarrow> \<lparr>log_type = ty, message = msg, timestamp = now, meta = mt\<rparr>)"

definition log_calls :: "AppState \<Rightarrow> (string \<times> string \<times> string \<times> (string \<times> pyval) list option) list \<Rightarrow> AppState" where
  "log_calls st calls = foldl (\<lambda>s (now, ty, msg, mt). AppState_log s now ty msg mt) st calls"

section \<open>The chat stream as the specification describes it\<close>

text \<open>
  This definition follows the specification's words, not the code: the response is a
  sequence of frames, one per line that starts with \<open>data: \<close>; a frame that is a JSON
  object with \<open>type\<close> \<open>"text"\<close> and a string \<open>content\<close> contributes that content, and
  everything else is ignored: a line without the prefix, a line that is not UTF-8 or not
  JSON, JSON of another shape, a frame of another type. \<open>spec_frame_text\<close> is what a line
  contributes to the answer.
\<close>

definition spec_frame_text :: "(string \<Rightarrow> exc + pyval) \<Rightarrow> raw_line \<Rightarrow> string" where
  "spec_frame_text loads line =
     (case line of
        Utf8 line_str \<Rightarrow>
          if take 6 line_str = ''data: ''
          then (case loads (drop 6 line_str) of
                  Inr (PDict d) \<Rightarrow>
                    if map_of d ''type'' = Some (PStr ''text'')
                    then (case map_of d ''content'' of Some (PStr c) \<Rightarrow> c | _ \<Rightarrow> [])
                    else []
                | _ \<Rightarrow> [])
          else []
      | NotUtf8 msg \<Rightarrow> [])"

section \<open>The lines that the read loop gets past\<close>

text \<open>
  \<open>readable_line\<close> describes the code, not the specification: it holds for exactly the
  lines on which the body of the loop in \<open>_chat_via_http\<close> raises nothing (lemma
  \<open>readable_line_iff\<close> below). These are the lines that decode as UTF-8 and either lack
  the \<open>data: \<close> prefix, or carry text that \<open>json.loads\<close> rejects with
  \<open>JSONDecodeError\<close>, or carry a JSON object that is not of type \<open>"text"\<close> or whose
  \<open>content\<close> is absent or a string. On every other line the read ends with an exception.
\<close>

definition readable_line :: "(string \<Rightarrow> exc + pyval) \<Rightarrow> raw_line \<Rightarrow> bool" where
  "readable_line loads line =
     (case line of
        Utf8 line_str \<Rightarrow>
          if take 6 line_str = ''data: ''
          then (case loads (drop 6 line_str) of
                  Inl e \<Rightarrow> exc_class e = JSONDecodeError
                | Inr (PDict d) \<Rightarrow>
                    if map_of d ''type'' = Some (PStr ''text'')
                    then (case map_of d ''content'' of
                            None \<Rightarrow> True
                          | Some (PStr c) \<Rightarrow> True
                          | Some v \<Rightarrow> False)
                    else True
                | Inr v \<Rightarrow> False)
          else True
      | NotUtf8 msg \<Rightarrow> False)"

section \<open>Stand-ins for the surroundings\<close>

text \<open>
  Concrete surroundings at which the theorems below are evaluated: a JSON decoder that
  knows the frames of the examples and rejects every other text, a monitor that answers
  each request with a given body, a monitor that refuses the connection, response
  bodies, and two instances (one holding a monitor port, one without).
\<close>

definition stub_loads :: "string \<Rightarrow> exc + pyval" where
  \<open>stub_loads s =
     (if s = ''{"type":"text","content":"pong "}'' @ [CHR 0x0A]
        then Inr (PDict [(''type'', PStr ''text''), (''content'', PStr ''pong '')])
      else if s = ''{"type":"text","content":"ok"}'' @ [CHR 0x0A]
        then Inr (PDict [(''type'', PStr ''text''), (''content'', PStr ''ok'')])
      else if s = ''{"type":"text","content":""}'' @ [CHR 0x0A]
        then Inr (PDict [(''type'', PStr ''text''), (''content'', PStr [])])
      else if s = ''{"type":"done"}'' @ [CHR 0x0A]
        then Inr (PDict [(''type'', PStr ''done'')])
      else if s = ''null'' @ [CHR 0x0A]
        then Inr PNone
      else Inl (Exc JSONDecodeError ''Expecting value: line 1 column 1 (char 0)''))\<close>

definition stub_monitor :: "raw_line list \<Rightarrow> Net" where
  "stub_monitor body =
     \<lparr>urlopen = (\<lambda>request. Inr \<lparr>lines = body, read_error = None\<rparr>), json_loads = stub_loads\<rparr>"

definition unreachable_monitor :: Net where
  "unreachable_monitor =
     \<lparr>urlopen = (\<lambda>request. Inl (Exc URLError ''<urlopen error [Errno 111] Connection refused>'')),
      json_loads = stub_loads\<rparr>"

definition pong_body :: "raw_line list" where
  \<open>pong_body =
     [Utf8 (''data: {"type":"text","content":"pong "}'' @ [CHR 0x0A]),
      Utf8 [CHR 0x0A],
      Utf8 (''data: {"type":"text","content":"ok"}'' @ [CHR 0x0A]),
      Utf8 [CHR 0x0A]]\<close>

definition empty_text_body :: "raw_line list" where
  \<open>empty_text_body = [Utf8 (''data: {"type":"text","content":""}'' @ [CHR 0x0A])]\<close>

definition cut_short_body :: "raw_line list" where
  \<open>cut_short_body =
     [Utf8 (''data: {"type":"text","content":"ok"}'' @ [CHR 0x0A]),
      NotUtf8 (quoted ''utf-8'' @ '' codec can'' @ [CHR 0x27]
               @ ''t decode byte 0xff in position 0: invalid start byte'')]\<close>

definition null_body :: "raw_line list" where
  \<open>null_body = [Utf8 (''data: null'' @ [CHR 0x0A])]\<close>

definition child_instance :: ReflexiveInstance where
  "child_instance =
     \<lparr>app_state = \<lparr>logs = [], maxlen = Some 500, custom_state = Map.empty\<rparr>,
      cli_process = None, cli_port = PInt 3099, options = []\<rparr>"

definition standalone_instance :: ReflexiveInstance where
  "standalone_instance =
     \<lparr>app_state = \<lparr>logs = [], maxlen = Some 500, custom_state = Map.empty\<rparr>,
      cli_process = None, cli_port = PNone, options = []\<rparr>"

text \<open>
  A pattern compiler that knows one valid and one invalid pattern, a store with two
  entries, an integer parser that knows one port, a \<open>Popen\<close> that starts every command,
  \<open>str\<close> for the values of the examples, a clock, and two process environments: one set
  up by the CLI for its child, and a bare one.
\<close>

definition stub_re_compile :: "string \<Rightarrow> exc + (string \<Rightarrow> bool)" where
  "stub_re_compile query =
     (if query = ''^slow$'' then Inr (\<lambda>msg. msg = ''slow'' \<or> msg = ''slow'' @ [CHR 0x0A])
      else if query = ''(''
        then Inl (Exc PatternError ''missing ), unterminated subpattern at position 0'')
      else Inl (Exc OtherException ''pattern unknown to the stub''))"

definition two_entries :: AppState where
  "two_entries =
     \<lparr>logs = [\<lparr>log_type = ''info'', message = ''started'', timestamp = ''t1'', meta = None\<rparr>,
              \<lparr>log_type = ''warn'', message = ''slow'', timestamp = ''t2'', meta = None\<rparr>],
      maxlen = Some 500, custom_state = Map.empty\<rparr>"

definition stub_int :: "string \<Rightarrow> exc + int" where
  "stub_int s =
     (if s = ''4000'' then Inr 4000
      else Inl (Exc ValueError (''invalid literal for int() with base 10: '' @ quoted s)))"

definition stub_popen :: "pyval list \<Rightarrow> exc + Popen" where
  "stub_popen cmd = Inr \<lparr>args = cmd, pid = 4242, poll_after_start = None\<rparr>"

definition stub_str :: "pyval \<Rightarrow> string" where
  "stub_str v =
     (case v of
        PStr s \<Rightarrow> s
      | _ \<Rightarrow> if v = PInt 3099 then ''3099''
             else if v = PInt 4000 then ''4000''
             else if v = PInt 4242 then ''4242''
             else ''<value>'')"

definition stub_clock :: "nat \<Rightarrow> string" where
  "stub_clock k = (if k = 0 then ''t0'' else if k = 1 then ''t1'' else ''t2'')"

definition under_cli :: Sys where
  "under_cli =
     \<lparr>environ = [''REFLEXIVE_CLI_MODE'' \<mapsto> ''true'', ''REFLEXIVE_CLI_PORT'' \<mapsto> ''4000''],
      argv0 = ''app.py'', int_of_str = stub_int, popen = stub_popen,
      str_of = stub_str, clock = stub_clock\<rparr>"

definition on_its_own :: Sys where
  "on_its_own =
     \<lparr>environ = Map.empty, argv0 = ''app.py'', int_of_str = stub_int, popen = stub_popen,
      str_of = stub_str, clock = stub_clock\<rparr>"

section \<open>The log buffer is bounded and keeps the newest entries\<close>

lemma deque_append_bounded:
  "length xs \<le> n \<Longrightarrow> deque_append (Some n) xs x = drop (Suc (length xs) - n) (xs @ [x])"
proof (cases "length xs = n")
  case True
  then have idx: "Suc (length xs) - n = Suc 0" by simp
  have "drop (Suc 0) (xs @ [x]) = tl (xs @ [x])" by (simp only: drop_Suc drop_0)
  then show ?thesis using True by (simp add: deque_append_def Let_def idx del: drop_append)
next
  case False
  assume "length xs \<le> n"
  with False have "length xs < n" by simp
  then show ?thesis by (simp add: deque_append_def Let_def)
qed

lemma log_calls_snoc:
  "log_calls st (calls @ [c]) =
     (log_calls st calls)\<lparr>logs := deque_append (maxlen (log_calls st calls)) (logs (log_calls st calls)) (entry_of_call c)\<rparr>"
  by (cases c) (simp add: log_calls_def AppState_log_def entry_of_call_def Let_def)

lemma log_calls_maxlen: "maxlen (log_calls st calls) = maxlen st"
  by (induction calls rule: rev_induct) (simp_all add: log_calls_snoc, simp add: log_calls_def)

lemma log_calls_logs:
  assumes "maxlen st = Some n" and "length (logs st) \<le> n"
  shows "logs (log_calls st calls) =
           drop (length (logs st) + length calls - n) (logs st @ map entry_of_call calls)"
proof (induction calls rule: rev_induct)
  case Nil
  from assms show ?case by (simp add: log_calls_def)
next
  case (snoc c calls)
  let ?cur = "logs (log_calls st calls)"
  let ?d = "length (logs st) + length calls - n"
  have len: "length ?cur \<le> n" using snoc assms by simp
  have "logs (log_calls st (calls @ [c])) = deque_append (Some n) ?cur (entry_of_call c)"
    by (simp add: log_calls_snoc log_calls_maxlen assms)
  also have "\<dots> = drop (Suc (length ?cur) - n) (?cur @ [entry_of_call c])"
    using len by (rule deque_append_bounded)
  also have "?cur @ [entry_of_call c] = drop ?d (logs st @ map entry_of_call (calls @ [c]))"
    using snoc by simp
  also have "drop (Suc (length ?cur) - n) (drop ?d (logs st @ map entry_of_call (calls @ [c])))
      = drop (length (logs st) + length (calls @ [c]) - n) (logs st @ map entry_of_call (calls @ [c]))"
  proof -
    have "length ?cur = length (logs st) + length calls - ?d" using snoc by simp
    then have "Suc (length ?cur) - n + ?d = length (logs st) + length (calls @ [c]) - n"
      by (cases "length (logs st) + length calls \<le> n") simp_all
    then show ?thesis by (simp only: drop_drop)
  qed
  finally show ?case .
qed


lemma init_fresh:
  assumes "AppState_init (PInt (int N)) = Inr st0"
  shows "logs st0 = [] \<and> maxlen st0 = Some N"
  using assms by (auto simp: AppState_init_def split: if_splits)

text \<open>
  C1. A store created with capacity \<open>N\<close> that receives \<open>M > N\<close> appends holds, after the
  last one, exactly the \<open>N\<close> entries appended last, in the order they were appended; and
  after each of the appends (after every prefix of the sequence) it holds at most \<open>N\<close>
  entries.
\<close>

theorem log_store_retains_last_N:
  assumes "AppState_init (PInt (int N)) = Inr st0" and "N < length calls"
  shows "logs (log_calls st0 calls) = drop (length calls - N) (map entry_of_call calls)
       \<and> length (logs (log_calls st0 calls)) = N
       \<and> (\<forall>k \<le> length calls. length (logs (log_calls st0 (take k calls))) \<le> N)"
proof -
  from assms(1) have fresh: "logs st0 = []" "maxlen st0 = Some N"
    using init_fresh by blast+
  have all: "logs (log_calls st0 cs) = drop (length cs - N) (map entry_of_call cs)" for cs
    using log_calls_logs [of st0 N cs] fresh by simp
  have "length (logs (log_calls st0 calls)) = N"
    using all [of calls] assms(2) by simp
  moreover have "length (logs (log_calls st0 (take k calls))) \<le> N" for k
    using all [of "take k calls"] by simp
  ultimately show ?thesis using all [of calls] by blast
qed

theorem log_store_retains_last_N_witness:
  "AppState_init (PInt (int 2)) = Inr \<lparr>logs = [], maxlen = Some 2, custom_state = Map.empty\<rparr>
   \<and> (2::nat) < length [(''t1'', ''info'', ''a'', None), (''t2'', ''warn'', ''b'', None), (''t3'', ''error'', ''c'', None)]
   \<and> logs (log_calls \<lparr>logs = [], maxlen = Some 2, custom_state = Map.empty\<rparr>
        [(''t1'', ''info'', ''a'', None), (''t2'', ''warn'', ''b'', None), (''t3'', ''error'', ''c'', None)])
      = [\<lparr>log_type = ''warn'', message = ''b'', timestamp = ''t2'', meta = None\<rparr>,
         \<lparr>log_type = ''error'', message = ''c'', timestamp = ''t3'', meta = None\<rparr>]"
proof -
  have i: "AppState_init (PInt (int 2)) = Inr \<lparr>logs = [], maxlen = Some 2, custom_state = Map.empty\<rparr>"
    by (simp add: AppState_init_def)
  have l: "(2::nat) < length [(''t1'', ''info'', ''a'', None :: (string \<times> pyval) list option), (''t2'', ''warn'', ''b'', None), (''t3'', ''error'', ''c'', None)]"
    by simp
  show ?thesis
    using log_store_retains_last_N [OF i l] i by (simp add: entry_of_call_def)
qed

section \<open>Reading the log buffer\<close>

text \<open>
  For a positive count the slice \<open>logs[-count:]\<close> is the last \<open>count\<close> entries that pass
  the filter, oldest first, and all of them when there are fewer.
\<close>

lemma get_logs_positive_count:
  assumes "0 < K"
  shows "AppState_get_logs st (Some K) ty =
           (let kept = AppState_get_logs st None ty in drop (length kept - nat K) kept)"
proof -
  have "slice_from (- K) xs = drop (length xs - nat K) xs" for xs :: "LogEntry list"
  proof -
    have "nat (max (- K + int (length xs)) 0) = length xs - nat K" using assms by linarith
    then show ?thesis using assms by (simp add: slice_from_def Let_def)
  qed
  then show ?thesis by (simp add: AppState_get_logs_def Let_def)
qed

text \<open>
  C2. The claim bounds the result of a query with count \<open>K\<close> by \<open>min K size\<close> for every
  \<open>K \<ge> 0\<close>. For \<open>K = 0\<close> the slice is \<open>logs[-0:]\<close>, which is \<open>logs[0:]\<close>: a store
  of two entries queried with count 0 returns both entries, not none.
\<close>

theorem get_logs_count_zero_returns_all:
  "AppState_get_logs
     \<lparr>logs = [\<lparr>log_type = ''info'', message = ''started'', timestamp = ''t1'', meta = None\<rparr>,
              \<lparr>log_type = ''warn'', message = ''slow'', timestamp = ''t2'', meta = None\<rparr>],
      maxlen = Some 500, custom_state = Map.empty\<rparr> (Some 0) None
   = [\<lparr>log_type = ''info'', message = ''started'', timestamp = ''t1'', meta = None\<rparr>,
      \<lparr>log_type = ''warn'', message = ''slow'', timestamp = ''t2'', meta = None\<rparr>]"
  by (simp add: AppState_get_logs_def slice_from_def)

section \<open>The state dictionary\<close>

text \<open>
  C7. Writing a key twice and reading it gives the second value, and reading a key that
  the dictionary does not hold gives \<open>None\<close> as a value: no exception is raised.
\<close>

theorem state_last_write_wins:
  "AppState_get_state (AppState_set_state (AppState_set_state st key v1) key v2) (Some key)
     = StateValue v2
   \<and> (key \<notin> dom (custom_state st) \<longrightarrow> AppState_get_state st (Some key) = StateValue PNone)"
  by (auto simp: AppState_get_state_def AppState_set_state_def split: option.splits)

theorem state_last_write_wins_witness:
  "AppState_get_state
     (AppState_set_state
        (AppState_set_state \<lparr>logs = [], maxlen = Some 500, custom_state = Map.empty\<rparr>
           ''test.value'' (PInt 41))
        ''test.value'' (PInt 42))
     (Some ''test.value'') = StateValue (PInt 42)
   \<and> ''missing'' \<notin> dom (custom_state \<lparr>logs = [], maxlen = Some 500, custom_state = Map.empty\<rparr>)
   \<and> AppState_get_state \<lparr>logs = [], maxlen = Some 500, custom_state = Map.empty\<rparr> (Some ''missing'')
       = StateValue PNone"
  using state_last_write_wins
          [of "\<lparr>logs = [], maxlen = Some 500, custom_state = Map.empty\<rparr>" "''test.value''" "PInt 41" "PInt 42"]
        state_last_write_wins
          [of "\<lparr>logs = [], maxlen = Some 500, custom_state = Map.empty\<rparr>" "''missing''" "PInt 41" "PInt 42"]
  by simp

section \<open>Searching the log buffer\<close>

text \<open>
  C8. A pattern that \<open>re.compile\<close> rejects makes the search raise that error to the
  caller: the result is the error and no list of entries (the search only reads the
  store, so the store is as it was). A pattern that compiles gives exactly the entries
  whose message the pattern finds a match in, in buffer order.
\<close>

theorem search_logs_invalid_pattern_raises:
  "(re_compile query = Inl e \<longrightarrow> AppState_search_logs re_compile st query = Inl e)
   \<and> (re_compile query = Inr pattern_search \<longrightarrow>
        AppState_search_logs re_compile st query
          = Inr (filter (\<lambda>l. pattern_search (message l)) (logs st)))"
  by (simp add: AppState_search_logs_def)

theorem search_logs_invalid_pattern_raises_witness:
  "stub_re_compile ''('' = Inl (Exc PatternError ''missing ), unterminated subpattern at position 0'')
   \<and> AppState_search_logs stub_re_compile two_entries ''(''
       = Inl (Exc PatternError ''missing ), unterminated subpattern at position 0'')
   \<and> AppState_search_logs stub_re_compile two_entries ''^slow$''
       = Inr [\<lparr>log_type = ''warn'', message = ''slow'', timestamp = ''t2'', meta = None\<rparr>]"
proof -
  have a: "stub_re_compile ''(''
             = Inl (Exc PatternError ''missing ), unterminated subpattern at position 0'')"
    by (simp add: stub_re_compile_def)
  have b: "stub_re_compile ''^slow$''
             = Inr (\<lambda>msg. msg = ''slow'' \<or> msg = ''slow'' @ [CHR 0x0A])"
    by (simp add: stub_re_compile_def)
  show ?thesis
    using search_logs_invalid_pattern_raises
            [of stub_re_compile "''(''"
                "Exc PatternError ''missing ), unterminated subpattern at position 0''"
                two_entries]
          search_logs_invalid_pattern_raises
            [of stub_re_compile "''^slow$''" _ two_entries
                "\<lambda>msg. msg = ''slow'' \<or> msg = ''slow'' @ [CHR 0x0A]"]
          a b
    by (simp add: two_entries_def)
qed

section \<open>Chat over the event stream\<close>

text \<open>
  On a readable line the loop body appends what the line contributes and raises nothing,
  and on no other line does it return normally; so on a body of readable lines the loop
  collects the contents of the text frames in order.
\<close>

lemma sse_line_readable:
  assumes "readable_line loads line"
  shows "sse_line loads acc line = Inr (acc @ spec_frame_text loads line)"
  using assms
  by (auto simp: readable_line_def sse_line_def spec_frame_text_def try_except_def
      except_JSONDecodeError_def chunk_get_def dict_get_def str_iadd_def
      split: raw_line.splits sum.splits pyval.splits option.splits if_splits)

lemma readable_line_iff:
  "readable_line loads line \<longleftrightarrow> (\<exists>r. sse_line loads acc line = Inr r)"
  by (auto simp: readable_line_def sse_line_def try_except_def
      except_JSONDecodeError_def chunk_get_def dict_get_def str_iadd_def
      split: raw_line.splits sum.splits pyval.splits option.splits if_splits)

lemma sse_lines_readable:
  "list_all (readable_line loads) ls \<Longrightarrow>
     sse_lines loads acc ls = Inr (acc @ concat (map (spec_frame_text loads) ls))"
  by (induction ls arbitrary: acc) (simp_all add: sse_line_readable)

text \<open>
  C3, as amended. The claim says that \<open>chat\<close> returns the concatenation of the contents
  of the text frames, skipping malformed frames. Two things stand against that. When the
  concatenation is empty the code returns \<open>"No response"\<close>, by its last line
  \<open>return full_response or "No response"\<close>. And a line that is not readable ends the
  read. What holds: with a monitor port set, when the response opens and is read to its
  end and every line is readable, \<open>chat\<close> returns the contents of the text frames
  concatenated in arrival order, the frames that are not JSON being skipped, and
  \<open>"No response"\<close> when that text is empty. Nothing is said here about a stream with a
  line that is not readable. The instance below is the stream of the two frames
  \<open>"pong "\<close> and \<open>"ok"\<close>, for which \<open>chat\<close> returns exactly \<open>"pong ok"\<close>.
\<close>

theorem chat_concatenates_text_frames:
  assumes "truthy (cli_port inst)"
    and "urlopen net (chat_request inst msg) = Inr response"
    and "read_error response = None"
    and "list_all (readable_line (json_loads net)) (lines response)"
  shows "chat net inst msg =
           Inr (let text = concat (map (spec_frame_text (json_loads net)) (lines response))
                in if text \<noteq> [] then text else ''No response'')"
  using assms sse_lines_readable [of "json_loads net" "lines response" "[]"]
  by (simp add: chat_def chat_via_http_def chat_attempt_def read_sse_def try_except_def Let_def)

theorem chat_concatenates_text_frames_witness:
  "truthy (cli_port child_instance)
   \<and> urlopen (stub_monitor pong_body) (chat_request child_instance ''ping'')
       = Inr \<lparr>lines = pong_body, read_error = None\<rparr>
   \<and> list_all (readable_line (json_loads (stub_monitor pong_body))) pong_body
   \<and> chat (stub_monitor pong_body) child_instance ''ping'' = Inr ''pong ok''"
proof -
  have p: "truthy (cli_port child_instance)" by (simp add: child_instance_def)
  have u: "urlopen (stub_monitor pong_body) (chat_request child_instance ''ping'')
             = Inr \<lparr>lines = pong_body, read_error = None\<rparr>"
    by (simp add: stub_monitor_def)
  have r: "read_error \<lparr>lines = pong_body, read_error = None\<rparr> = None" by simp
  have w: "list_all (readable_line (json_loads (stub_monitor pong_body)))
             (lines \<lparr>lines = pong_body, read_error = None\<rparr>)"
    by (simp add: stub_monitor_def pong_body_def readable_line_def stub_loads_def)
  have t: "concat (map (spec_frame_text (json_loads (stub_monitor pong_body))) pong_body) = ''pong ok''"
    by (simp add: stub_monitor_def pong_body_def spec_frame_text_def stub_loads_def)
  show ?thesis
    using chat_concatenates_text_frames [OF p u r w] p u w t by simp
qed

text \<open>
  The claim as it is written fails twice. A stream whose only frame is a text frame with
  the content \<open>""\<close> has the empty concatenation, and \<open>chat\<close> returns \<open>"No response"\<close>.
  A stream of the text frame \<open>"ok"\<close> followed by a line that is not UTF-8 (a malformed
  frame) has the concatenation \<open>"ok"\<close>, and \<open>chat\<close> returns the text of the decoding
  error: the read was given up and the text received before is lost.
\<close>

theorem chat_concatenation_counterexample:
  "concat (map (spec_frame_text (json_loads (stub_monitor empty_text_body))) empty_text_body) = []
   \<and> chat (stub_monitor empty_text_body) child_instance ''ping'' = Inr ''No response''
   \<and> chat (stub_monitor empty_text_body) child_instance ''ping''
       \<noteq> Inr (concat (map (spec_frame_text (json_loads (stub_monitor empty_text_body)))
                        empty_text_body))
   \<and> concat (map (spec_frame_text (json_loads (stub_monitor cut_short_body))) cut_short_body) = ''ok''
   \<and> chat (stub_monitor cut_short_body) child_instance ''ping''
       = Inr (''Error: '' @ quoted ''utf-8'' @ '' codec can'' @ [CHR 0x27]
              @ ''t decode byte 0xff in position 0: invalid start byte'')
   \<and> chat (stub_monitor cut_short_body) child_instance ''ping''
       \<noteq> Inr (concat (map (spec_frame_text (json_loads (stub_monitor cut_short_body)))
                        cut_short_body))"
  by (simp add: chat_def chat_via_http_def chat_attempt_def chat_request_def read_sse_def
      sse_line_def chunk_get_def str_iadd_def dict_get_def quoted_def try_except_def
      except_Exception_def except_JSONDecodeError_def spec_frame_text_def
      stub_monitor_def stub_loads_def child_instance_def empty_text_body_def
      cut_short_body_def)

text \<open>
  What holds of streams without text: when every line is readable and the text frames
  contribute nothing (there are none, or their contents are empty; the empty body is a
  case), \<open>chat\<close> returns \<open>"No response"\<close>.
\<close>

lemma text_free_readable_stream:
  assumes "truthy (cli_port inst)"
    and "urlopen net (chat_request inst msg) = Inr response"
    and "read_error response = None"
    and "list_all (readable_line (json_loads net)) (lines response)"
    and "concat (map (spec_frame_text (json_loads net)) (lines response)) = []"
  shows "chat net inst msg = Inr ''No response''"
  using assms sse_lines_readable [of "json_loads net" "lines response" "[]"]
  by (simp add: chat_def chat_via_http_def chat_attempt_def read_sse_def try_except_def)

text \<open>
  A frame that is JSON but not an object ends the read as well: \<open>chunk.get\<close> raises,
  the inner handler does not catch that, and \<open>chat\<close> returns the text of the error even
  though a text frame came before.
\<close>

lemma non_object_frame_ends_the_read:
  \<open>chat (stub_monitor [Utf8 (''data: {"type":"text","content":"ok"}'' @ [CHR 0x0A]),
                        Utf8 (''data: null'' @ [CHR 0x0A])])
        child_instance ''ping''
     = Inr (''Error: '' @ [CHR 0x27] @ ''NoneType'' @ [CHR 0x27]
            @ '' object has no attribute '' @ [CHR 0x27] @ ''get'' @ [CHR 0x27])\<close>
  by (simp add: chat_def chat_via_http_def chat_attempt_def chat_request_def read_sse_def
      sse_line_def chunk_get_def str_iadd_def dict_get_def quoted_def try_except_def
      except_Exception_def except_JSONDecodeError_def
      stub_monitor_def stub_loads_def child_instance_def)

text \<open>
  C10. The claim gives \<open>"No response"\<close> for every stream that completes without a text
  frame. The stream whose only line is \<open>data: null\<close> completes and holds no text frame,
  and so does the stream whose only line is not UTF-8; for both \<open>chat\<close> returns an
  error text, not \<open>"No response"\<close>.
\<close>

theorem text_free_stream_gives_error:
  "chat (stub_monitor null_body) child_instance ''ping''
     = Inr (''Error: '' @ quoted ''NoneType'' @ '' object has no attribute '' @ quoted ''get'')
   \<and> chat (stub_monitor [NotUtf8 ''invalid start byte'']) child_instance ''ping''
       = Inr ''Error: invalid start byte''"
  by (simp add: chat_def chat_via_http_def chat_attempt_def chat_request_def read_sse_def
      sse_line_def chunk_get_def dict_get_def quoted_def try_except_def
      except_Exception_def except_JSONDecodeError_def
      stub_monitor_def stub_loads_def child_instance_def null_body_def)

text \<open>
  C5. Without a monitor port \<open>chat\<close> returns the fixed message that chat needs the CLI.
  In every mode and for every behaviour of the network and the decoder, \<open>chat\<close> returns
  a string that is not empty and raises nothing; with a monitor port, whatever the
  request or the reading of the stream raises comes back as \<open>"Error: "\<close> followed by the
  text of the exception.
\<close>

theorem chat_never_raises:
  "(\<not> truthy (cli_port inst) \<longrightarrow>
      chat net inst msg =
        Inr ''Error: Chat requires running under Reflexive CLI (run: reflexive app.py)'')
   \<and> (\<exists>s. chat net inst msg = Inr s \<and> s \<noteq> [])
   \<and> (truthy (cli_port inst) \<longrightarrow> chat_attempt net inst msg = Inl e \<longrightarrow>
        chat net inst msg = Inr (''Error: '' @ exc_str e))"
  by (auto simp: chat_def chat_via_http_def try_except_def except_Exception_def
      chat_attempt_def read_sse_def split: sum.splits option.splits)

theorem chat_never_raises_witness:
  "\<not> truthy (cli_port standalone_instance)
   \<and> chat unreachable_monitor standalone_instance ''What is the current uptime?''
       = Inr ''Error: Chat requires running under Reflexive CLI (run: reflexive app.py)''
   \<and> truthy (cli_port child_instance)
   \<and> chat_attempt unreachable_monitor child_instance ''ping''
       = Inl (Exc URLError ''<urlopen error [Errno 111] Connection refused>'')
   \<and> chat unreachable_monitor child_instance ''ping''
       = Inr ''Error: <urlopen error [Errno 111] Connection refused>''"
proof -
  have a: "\<not> truthy (cli_port standalone_instance)" by (simp add: standalone_instance_def)
  have b: "truthy (cli_port child_instance)" by (simp add: child_instance_def)
  have c: "chat_attempt unreachable_monitor child_instance ''ping''
             = Inl (Exc URLError ''<urlopen error [Errno 111] Connection refused>'')"
    by (simp add: chat_attempt_def unreachable_monitor_def)
  show ?thesis
    using chat_never_raises [of standalone_instance unreachable_monitor "''What is the current uptime?''"]
          chat_never_raises [of child_instance unreachable_monitor "''ping''"
                                "Exc URLError ''<urlopen error [Errno 111] Connection refused>''"]
          a b c
    by simp
qed

section \<open>State sync\<close>

text \<open>
  C6. \<open>_sync_state_to_cli\<close> returns normally whatever the network does, and
  \<open>set_state\<close> returns an instance whose state maps the key to the value; neither
  depends on the outcome of the request.
\<close>

theorem set_state_ignores_sync_outcome:
  "sync_state_to_cli net inst key val = Inr ()
   \<and> (\<exists>inst'. ReflexiveInstance_set_state net inst key val = Inr inst'
        \<and> ReflexiveInstance_get_state inst' (Some key) = StateValue val)"
  by (auto simp: sync_state_to_cli_def try_except_def except_Exception_def
      ReflexiveInstance_set_state_def ReflexiveInstance_get_state_def Let_def
      AppState_get_state_def AppState_set_state_def split: sum.splits)

theorem set_state_ignores_sync_outcome_witness:
  "sync_request unreachable_monitor child_instance ''test.value'' (PInt 42)
     = Inl (Exc URLError ''<urlopen error [Errno 111] Connection refused>'')
   \<and> sync_state_to_cli unreachable_monitor child_instance ''test.value'' (PInt 42) = Inr ()
   \<and> (\<exists>inst'. ReflexiveInstance_set_state unreachable_monitor child_instance ''test.value'' (PInt 42)
                 = Inr inst'
        \<and> ReflexiveInstance_get_state inst' (Some ''test.value'') = StateValue (PInt 42))"
proof -
  have "sync_request unreachable_monitor child_instance ''test.value'' (PInt 42)
          = Inl (Exc URLError ''<urlopen error [Errno 111] Connection refused>'')"
    by (simp add: sync_request_def unreachable_monitor_def)
  then show ?thesis
    using set_state_ignores_sync_outcome [of unreachable_monitor child_instance "''test.value''" "PInt 42"]
    by simp
qed

section \<open>Mode resolution\<close>

text \<open>\<open>_spawn_cli_process\<close> prints nothing when it returns the process.\<close>

lemma spawn_cli_printed_started:
  "spawn_cli_process sys entry_file opts = Inr (Some process) \<Longrightarrow>
     spawn_cli_printed sys entry_file opts = []"
  by (auto simp: spawn_cli_process_def spawn_cli_printed_def try_except_def
      except_Exception_def split: sum.splits if_splits)

text \<open>
  C4. When \<open>REFLEXIVE_CLI_MODE\<close> is \<open>"true"\<close> and \<open>REFLEXIVE_CLI_PORT\<close> is a non-empty
  string that \<open>int\<close> reads as the port \<open>p\<close>, \<open>make_reflexive\<close> returns the client
  instance for \<open>p\<close>, with no spawned process and none of the caller's options, whatever
  the options are. Only when the environment does not say so is \<open>spawn_cli\<close> looked
  at: if it is false the instance has no port; if it is true the instance has the spawned
  process and the configured port, or no port when spawning gave no process. In the two
  spawn cases the buffer holds the lines printed on the way.
\<close>

theorem child_mode_takes_precedence:
  "(environ sys ''REFLEXIVE_CLI_MODE'' = Some ''true''
      \<and> environ sys ''REFLEXIVE_CLI_PORT'' = Some port_str \<and> port_str \<noteq> []
      \<and> int_of_str sys port_str = Inr port
    \<longrightarrow> make_reflexive sys options_arg = create_client_reflexive port
        \<and> make_reflexive sys options_arg
            = Inr \<lparr>app_state = \<lparr>logs = [], maxlen = Some 500, custom_state = Map.empty\<rparr>,
                   cli_process = None, cli_port = PInt port, options = []\<rparr>)
   \<and> (\<not> (environ sys ''REFLEXIVE_CLI_MODE'' = Some ''true''
           \<and> (\<exists>s. environ sys ''REFLEXIVE_CLI_PORT'' = Some s \<and> s \<noteq> []))
      \<and> opts = (case options_arg of None \<Rightarrow> [] | Some d \<Rightarrow> d)
      \<and> AppState_init (dict_get opts ''max_logs'' (PInt 500)) = Inr st
    \<longrightarrow> (\<not> truthy (dict_get opts ''spawn_cli'' (PBool False))
          \<longrightarrow> make_reflexive sys options_arg
                = Inr \<lparr>app_state = st, cli_process = None, cli_port = PNone, options = opts\<rparr>)
        \<and> (truthy (dict_get opts ''spawn_cli'' (PBool False))
            \<and> spawn_cli_process sys (dict_get opts ''entry'' (PStr (argv0 sys))) opts
                = Inr (Some process)
          \<longrightarrow> make_reflexive sys options_arg
                = Inr \<lparr>app_state =
                         prints_captured (clock sys) 0 st
                           [''[reflexive] Spawning Reflexive CLI for ''
                              @ str_of sys (dict_get opts ''entry'' (PStr (argv0 sys))) @ ''...'',
                            ''[reflexive] CLI started (PID: ''
                              @ str_of sys (PInt (pid process)) @ '')'',
                            ''[reflexive] Dashboard: http://localhost:''
                              @ str_of sys (dict_get opts ''port'' (PInt 3099)) @ ''/reflexive''],
                       cli_process = Some process,
                       cli_port = dict_get opts ''port'' (PInt 3099), options = opts\<rparr>)
        \<and> (truthy (dict_get opts ''spawn_cli'' (PBool False))
            \<and> spawn_cli_process sys (dict_get opts ''entry'' (PStr (argv0 sys))) opts = Inr None
          \<longrightarrow> make_reflexive sys options_arg
                = Inr \<lparr>app_state =
                         prints_captured (clock sys) 0 st
                           ([''[reflexive] Spawning Reflexive CLI for ''
                               @ str_of sys (dict_get opts ''entry'' (PStr (argv0 sys))) @ ''...'']
                            @ spawn_cli_printed sys (dict_get opts ''entry'' (PStr (argv0 sys))) opts
                            @ [''[reflexive] Falling back to standalone mode (chat disabled)'']),
                       cli_process = None, cli_port = PNone, options = opts\<rparr>))"
proof -
  have child: "make_reflexive sys options_arg = create_client_reflexive port
        \<and> make_reflexive sys options_arg
            = Inr \<lparr>app_state = \<lparr>logs = [], maxlen = Some 500, custom_state = Map.empty\<rparr>,
                   cli_process = None, cli_port = PInt port, options = []\<rparr>"
    if "environ sys ''REFLEXIVE_CLI_MODE'' = Some ''true''"
      and "environ sys ''REFLEXIVE_CLI_PORT'' = Some port_str" and "port_str \<noteq> []"
      and "int_of_str sys port_str = Inr port"
    using that
    by (simp add: make_reflexive_def create_client_reflexive_def AppState_init_def
        ReflexiveInstance_init_def Let_def)
  have other: "make_reflexive sys options_arg =
      (if truthy (dict_get opts ''spawn_cli'' (PBool False))
       then (case spawn_cli_process sys (dict_get opts ''entry'' (PStr (argv0 sys))) opts of
               Inl e \<Rightarrow> Inl e
             | Inr None \<Rightarrow>
                 Inr \<lparr>app_state =
                        prints_captured (clock sys) 0 st
                          ([''[reflexive] Spawning Reflexive CLI for ''
                              @ str_of sys (dict_get opts ''entry'' (PStr (argv0 sys))) @ ''...'']
                           @ spawn_cli_printed sys (dict_get opts ''entry'' (PStr (argv0 sys))) opts
                           @ [''[reflexive] Falling back to standalone mode (chat disabled)'']),
                      cli_process = None, cli_port = PNone, options = opts\<rparr>
             | Inr (Some process) \<Rightarrow>
                 Inr \<lparr>app_state =
                        prints_captured (clock sys) 0 st
                          ([''[reflexive] Spawning Reflexive CLI for ''
                              @ str_of sys (dict_get opts ''entry'' (PStr (argv0 sys))) @ ''...'']
                           @ spawn_cli_printed sys (dict_get opts ''entry'' (PStr (argv0 sys))) opts
                           @ [''[reflexive] CLI started (PID: ''
                                @ str_of sys (PInt (pid process)) @ '')'',
                              ''[reflexive] Dashboard: http://localhost:''
                                @ str_of sys (dict_get opts ''port'' (PInt 3099)) @ ''/reflexive'']),
                      cli_process = Some process,
                      cli_port = dict_get opts ''port'' (PInt 3099), options = opts\<rparr>)
       else Inr \<lparr>app_state = st, cli_process = None, cli_port = PNone, options = opts\<rparr>)"
    if "\<not> (environ sys ''REFLEXIVE_CLI_MODE'' = Some ''true''
           \<and> (\<exists>s. environ sys ''REFLEXIVE_CLI_PORT'' = Some s \<and> s \<noteq> []))"
      and "opts = (case options_arg of None \<Rightarrow> [] | Some d \<Rightarrow> d)"
      and "AppState_init (dict_get opts ''max_logs'' (PInt 500)) = Inr st"
  proof -
    have no_child: "(environ sys ''REFLEXIVE_CLI_MODE'' = Some ''true''
                       \<and> environ sys ''REFLEXIVE_CLI_PORT'' \<noteq> None
                       \<and> environ sys ''REFLEXIVE_CLI_PORT'' \<noteq> Some []) = False"
      using that(1) by (cases "environ sys ''REFLEXIVE_CLI_PORT''") auto
    have o: "(case options_arg of None \<Rightarrow> [] | Some d \<Rightarrow> if d \<noteq> [] then d else []) = opts"
      using that(2) by (cases options_arg) auto
    have i: "ReflexiveInstance_init a b c (Some opts)
               = \<lparr>app_state = a, cli_process = b, cli_port = c, options = opts\<rparr>" for a b c
      by (simp add: ReflexiveInstance_init_def)
    show ?thesis
      unfolding make_reflexive_def Let_def o no_child
      using that(3)
      by (simp add: i split: sum.splits option.splits del: prints_captured.simps)
  qed
  show ?thesis
    using child other spawn_cli_printed_started [of sys _ opts process]
    by (auto simp del: prints_captured.simps)
qed

theorem child_mode_takes_precedence_witness:
  "make_reflexive under_cli (Some [(''spawn_cli'', PBool True), (''port'', PInt 5000)])
     = Inr \<lparr>app_state = \<lparr>logs = [], maxlen = Some 500, custom_state = Map.empty\<rparr>,
            cli_process = None, cli_port = PInt 4000, options = []\<rparr>
   \<and> make_reflexive on_its_own None
       = Inr \<lparr>app_state = \<lparr>logs = [], maxlen = Some 500, custom_state = Map.empty\<rparr>,
              cli_process = None, cli_port = PNone, options = []\<rparr>
   \<and> make_reflexive on_its_own (Some [(''spawn_cli'', PBool True)])
       = Inr \<lparr>app_state =
                \<lparr>logs = [\<lparr>log_type = ''stdout'',
                          message = ''[reflexive] Spawning Reflexive CLI for app.py...'',
                          timestamp = ''t0'', meta = None\<rparr>,
                         \<lparr>log_type = ''stdout'',
                          message = ''[reflexive] CLI started (PID: 4242)'',
                          timestamp = ''t1'', meta = None\<rparr>,
                         \<lparr>log_type = ''stdout'',
                          message = ''[reflexive] Dashboard: http://localhost:3099/reflexive'',
                          timestamp = ''t2'', meta = None\<rparr>],
                 maxlen = Some 500, custom_state = Map.empty\<rparr>,
              cli_process =
                Some \<lparr>args = [PStr ''npx'', PStr ''reflexive'', PStr ''--write'', PStr ''app.py''],
                      pid = 4242, poll_after_start = None\<rparr>,
              cli_port = PInt 3099, options = [(''spawn_cli'', PBool True)]\<rparr>"
proof -
  have env: "environ under_cli ''REFLEXIVE_CLI_MODE'' = Some ''true''
             \<and> environ under_cli ''REFLEXIVE_CLI_PORT'' = Some ''4000'' \<and> ''4000'' \<noteq> []
             \<and> int_of_str under_cli ''4000'' = Inr 4000"
    by (simp add: under_cli_def stub_int_def)
  have alone: "\<not> (environ on_its_own ''REFLEXIVE_CLI_MODE'' = Some ''true''
                  \<and> (\<exists>s. environ on_its_own ''REFLEXIVE_CLI_PORT'' = Some s \<and> s \<noteq> []))"
    by (simp add: on_its_own_def)
  have fresh: "AppState_init (PInt 500) = Inr \<lparr>logs = [], maxlen = Some 500, custom_state = Map.empty\<rparr>"
    by (simp add: AppState_init_def)
  have spawned: "spawn_cli_process on_its_own (PStr ''app.py'') [(''spawn_cli'', PBool True)]
                   = Inr (Some \<lparr>args = [PStr ''npx'', PStr ''reflexive'', PStr ''--write'', PStr ''app.py''],
                                pid = 4242, poll_after_start = None\<rparr>)"
    by (simp add: spawn_cli_process_def try_except_def on_its_own_def stub_popen_def
        cli_cmd_def dict_get_def)
  have argv: "argv0 on_its_own = ''app.py''" by (simp add: on_its_own_def)
  have captured: "prints_captured (clock on_its_own) 0
                    \<lparr>logs = [], maxlen = Some 500, custom_state = Map.empty\<rparr>
                    [''[reflexive] Spawning Reflexive CLI for '' @ str_of on_its_own (PStr ''app.py'') @ ''...'',
                     ''[reflexive] CLI started (PID: '' @ str_of on_its_own (PInt 4242) @ '')'',
                     ''[reflexive] Dashboard: http://localhost:'' @ str_of on_its_own (PInt 3099) @ ''/reflexive'']
         = \<lparr>logs = [\<lparr>log_type = ''stdout'',
                     message = ''[reflexive] Spawning Reflexive CLI for app.py...'',
                     timestamp = ''t0'', meta = None\<rparr>,
                    \<lparr>log_type = ''stdout'',
                     message = ''[reflexive] CLI started (PID: 4242)'',
                     timestamp = ''t1'', meta = None\<rparr>,
                    \<lparr>log_type = ''stdout'',
                     message = ''[reflexive] Dashboard: http://localhost:3099/reflexive'',
                     timestamp = ''t2'', meta = None\<rparr>],
            maxlen = Some 500, custom_state = Map.empty\<rparr>"
    by (simp add: on_its_own_def stub_str_def stub_clock_def print_captured_def
        stdout_interceptor_def strip_def rstrip_def isspace_def AppState_log_def
        deque_append_def)
  have child: "make_reflexive under_cli (Some [(''spawn_cli'', PBool True), (''port'', PInt 5000)])
     = Inr \<lparr>app_state = \<lparr>logs = [], maxlen = Some 500, custom_state = Map.empty\<rparr>,
            cli_process = None, cli_port = PInt 4000, options = []\<rparr>"
    using child_mode_takes_precedence
            [of under_cli "''4000''" 4000 "Some [(''spawn_cli'', PBool True), (''port'', PInt 5000)]"]
          env
    by blast
  have plain: "make_reflexive on_its_own None
       = Inr \<lparr>app_state = \<lparr>logs = [], maxlen = Some 500, custom_state = Map.empty\<rparr>,
              cli_process = None, cli_port = PNone, options = []\<rparr>"
    using child_mode_takes_precedence
            [of on_its_own _ _ None "[]"
                "\<lparr>logs = [], maxlen = Some 500, custom_state = Map.empty\<rparr>"]
          alone fresh
    by (simp add: dict_get_def)
  have spawn: "make_reflexive on_its_own (Some [(''spawn_cli'', PBool True)])
       = Inr \<lparr>app_state =
                prints_captured (clock on_its_own) 0
                    \<lparr>logs = [], maxlen = Some 500, custom_state = Map.empty\<rparr>
                    [''[reflexive] Spawning Reflexive CLI for '' @ str_of on_its_own (PStr ''app.py'') @ ''...'',
                     ''[reflexive] CLI started (PID: '' @ str_of on_its_own (PInt 4242) @ '')'',
                     ''[reflexive] Dashboard: http://localhost:'' @ str_of on_its_own (PInt 3099) @ ''/reflexive''],
              cli_process =
                Some \<lparr>args = [PStr ''npx'', PStr ''reflexive'', PStr ''--write'', PStr ''app.py''],
                      pid = 4242, poll_after_start = None\<rparr>,
              cli_port = PInt 3099, options = [(''spawn_cli'', PBool True)]\<rparr>"
    using child_mode_takes_precedence
            [of on_its_own _ _ "Some [(''spawn_cli'', PBool True)]" "[(''spawn_cli'', PBool True)]"
                "\<lparr>logs = [], maxlen = Some 500, custom_state = Map.empty\<rparr>"
                "\<lparr>args = [PStr ''npx'', PStr ''reflexive'', PStr ''--write'', PStr ''app.py''],
                  pid = 4242, poll_after_start = None\<rparr>"]
          alone fresh spawned argv
    by (simp add: dict_get_def del: prints_captured.simps)
  show ?thesis using child plain spawn captured by (simp only: simp_thms)
qed

section \<open>The command line of the spawned monitor\<close>

text \<open>
  The command is \<open>npx reflexive\<close>, the enabled flags among \<open>--write\<close>, \<open>--debug\<close>,
  \<open>--shell\<close> in that order, and the entry file as last word. It depends on the options
  \<open>write\<close>, \<open>debug\<close> and \<open>shell\<close> only.
\<close>

lemma cli_cmd_ends_with_entry_file:
  "\<exists>flags. cli_cmd entry_file opts = [PStr ''npx'', PStr ''reflexive''] @ flags @ [entry_file]
     \<and> set flags \<subseteq> {PStr ''--write'', PStr ''--debug'', PStr ''--shell''}"
  by (auto simp: cli_cmd_def)

lemma cli_cmd_ignores_other_options:
  assumes "map_of opts' ''write'' = map_of opts ''write''"
    and "map_of opts' ''debug'' = map_of opts ''debug''"
    and "map_of opts' ''shell'' = map_of opts ''shell''"
  shows "cli_cmd entry_file opts' = cli_cmd entry_file opts"
  using assms by (simp add: cli_cmd_def dict_get_def)

text \<open>
  C9. The claim puts the configured port on the command line after the entry file. With
  the options \<open>{"spawn_cli": True, "port": 4000}\<close> the monitor is started as
  \<open>npx reflexive --write app.py\<close>, without the port, while the instance records port
  4000 as the one to talk to and has announced the dashboard at that port.
\<close>

theorem spawn_command_has_no_port:
  "make_reflexive on_its_own (Some [(''spawn_cli'', PBool True), (''port'', PInt 4000)])
     = Inr \<lparr>app_state =
              \<lparr>logs = [\<lparr>log_type = ''stdout'',
                        message = ''[reflexive] Spawning Reflexive CLI for app.py...'',
                        timestamp = ''t0'', meta = None\<rparr>,
                       \<lparr>log_type = ''stdout'',
                        message = ''[reflexive] CLI started (PID: 4242)'',
                        timestamp = ''t1'', meta = None\<rparr>,
                       \<lparr>log_type = ''stdout'',
                        message = ''[reflexive] Dashboard: http://localhost:4000/reflexive'',
                        timestamp = ''t2'', meta = None\<rparr>],
               maxlen = Some 500, custom_state = Map.empty\<rparr>,
            cli_process =
              Some \<lparr>args = [PStr ''npx'', PStr ''reflexive'', PStr ''--write'', PStr ''app.py''],
                    pid = 4242, poll_after_start = None\<rparr>,
            cli_port = PInt 4000,
            options = [(''spawn_cli'', PBool True), (''port'', PInt 4000)]\<rparr>"
  by (simp add: make_reflexive_def on_its_own_def AppState_init_def dict_get_def
      spawn_cli_process_def spawn_cli_printed_def try_except_def stub_popen_def cli_cmd_def
      ReflexiveInstance_init_def Let_def stub_str_def stub_clock_def print_captured_def
      stdout_interceptor_def strip_def rstrip_def isspace_def AppState_log_def
      deque_append_def)

end
